theory Spec2Isabelle
  imports Complex_Main "HOL-Library.List_Lexorder" "HOL-Library.Product_Lexorder"
    "HOL-Library.Sublist"
begin

section \<open>Python strings\<close>

text \<open>
  A Python \<open>str\<close> is a sequence of Unicode code points, and \<open>len\<close>, slicing and
  comparison work on code points. The rule tables and the fallback labels of this
  program are Korean, so a string is modelled as the list of its code points. The order
  on strings is Python's: lexicographic on code points, a proper prefix being smaller.
\<close>

type_synonym str = "nat list"

definition lit :: "string \<Rightarrow> str" where
  "lit s = map of_char s"

text \<open>
  \<open>str.lower()\<close>, for the code points below U+0100: the ASCII capitals and the
  Latin-1 capitals U+00C0..U+00DE (U+00D7, the multiplication sign, apart) move up
  by 32. Code points from U+0100 on are left as they are here, which is what Python
  does for Hangul and every other caseless script, but not for the cased letters
  there (Greek, Cyrillic and others), which Python changes: \<open>lower\<close> is Python's
  function on strings whose cased letters lie below U+0100. The general theorems
  below use one fact of it only, that the empty string alone has an empty lower-case
  form (\<open>lower_empty\<close>), which holds of \<open>str.lower()\<close> on every string; the examples
  are ASCII.
\<close>

definition lower_cp :: "nat \<Rightarrow> nat" where
  "lower_cp c =
     (if (65 \<le> c \<and> c \<le> 90) \<or> (192 \<le> c \<and> c \<le> 222 \<and> c \<noteq> 215) then c + 32 else c)"

definition lower :: "str \<Rightarrow> str" where
  "lower s = map lower_cp s"

text \<open>The code points for which \<open>str.isspace()\<close> holds; \<open>strip()\<close> and \<open>split()\<close> use them.\<close>

definition isspace :: "nat \<Rightarrow> bool" where
  "isspace c \<longleftrightarrow>
     (9 \<le> c \<and> c \<le> 13) \<or> (28 \<le> c \<and> c \<le> 32) \<or> c = 133 \<or> c = 160 \<or> c = 5760 \<or>
     (8192 \<le> c \<and> c \<le> 8202) \<or> c = 8232 \<or> c = 8233 \<or> c = 8239 \<or> c = 8287 \<or> c = 12288"

definition strip :: "str \<Rightarrow> str" where
  "strip s = rev (dropWhile isspace (rev (dropWhile isspace s)))"

text \<open>\<open>p in s\<close> on strings: \<open>p\<close> occurs in \<open>s\<close> as a contiguous run.\<close>

fun contains :: "str \<Rightarrow> str \<Rightarrow> bool" where
  "contains p [] = (p = [])"
| "contains p (c # s) = (prefix p (c # s) \<or> contains p s)"

text \<open>\<open>s.split()\<close>: the maximal runs of non-space code points, in order.\<close>

fun split_ws_from :: "str \<Rightarrow> str \<Rightarrow> str list" where
  "split_ws_from w [] = (if w = [] then [] else [w])"
| "split_ws_from w (c # s) =
     (if isspace c then (if w = [] then [] else [w]) @ split_ws_from [] s
      else split_ws_from (w @ [c]) s)"

definition split_ws :: "str \<Rightarrow> str list" where
  "split_ws s = split_ws_from [] s"

text \<open>\<open>s.split(sep)\<close> for a one-character separator: never the empty list.\<close>

fun split_from :: "nat \<Rightarrow> str \<Rightarrow> str \<Rightarrow> str list" where
  "split_from d w [] = [w]"
| "split_from d w (c # s) =
     (if c = d then w # split_from d [] s else split_from d (w @ [c]) s)"

definition split_on :: "nat \<Rightarrow> str \<Rightarrow> str list" where
  "split_on d s = split_from d [] s"

text \<open>\<open>name.split('.')[-1]\<close>: the segment after the last dot (U+002E).\<close>

definition simple_name :: "str \<Rightarrow> str" where
  "simple_name s = last (split_on 46 s)"

text \<open>\<open>sep.join(xs)\<close>.\<close>

fun join :: "str \<Rightarrow> str list \<Rightarrow> str" where
  "join sep [] = []"
| "join sep [x] = x"
| "join sep (x # y # ys) = x @ sep @ join sep (y # ys)"

section \<open>The rule engine (enhanced\_rule\_engine.py)\<close>

text \<open>The dataclass \<open>UIElement\<close>, with its eleven fields.\<close>

record UIElement =
  resource_id :: str
  class_name :: str
  "text" :: str
  content_description :: str
  bounds :: str
  clickable :: bool
  focusable :: bool
  enabled :: bool
  parent_context :: str
  sibling_context :: str
  app_context :: str

text \<open>
  A rule table is a \<open>dict\<close> read from JSON: its items in iteration order, each key
  once. \<open>k in d\<close> is \<open>map_of d k \<noteq> None\<close> and \<open>d[k]\<close> is the value \<open>map_of\<close> finds.
\<close>

type_synonym rules = "(str \<times> str list) list"

text \<open>The five tables of an \<open>EnhancedAccessibilityRuleEngine\<close> instance.\<close>

record engine =
  resource_rules :: rules
  class_rules :: rules
  text_pattern_rules :: rules
  app_specific_rules :: rules
  action_rules :: "(str \<times> int) list"

text \<open>The exceptions that occur: one of the engine, two of \<open>ET.fromstring\<close>.\<close>

datatype error = IndexError | ParseError | UnicodeEncodeError

text \<open>\<open>alternatives[0]\<close> as the value a matcher returns: it raises on the empty list.\<close>

definition first_candidate :: "str list \<Rightarrow> error + str option" where
  "first_candidate alts = (case alts of [] \<Rightarrow> Inl IndexError | a # _ \<Rightarrow> Inr (Some a))"

text \<open>
  \<open>_match_resource_id\<close>. The partial matches are the tuples
  \<open>(len(pattern), pattern, alternatives)\<close>; \<open>sort(reverse=True)\<close> puts them in
  descending tuple order, and the first one is taken.
\<close>

definition matching_patterns :: "rules \<Rightarrow> str \<Rightarrow> (nat \<times> str \<times> str list) list" where
  "matching_patterns rr resource_lower =
     map (\<lambda>(pattern, alternatives). (length pattern, pattern, alternatives))
       (filter (\<lambda>(pattern, alternatives). contains (lower pattern) resource_lower) rr)"

definition match_resource_id :: "rules \<Rightarrow> str \<Rightarrow> error + str option" where
  "match_resource_id rr rid =
     (case map_of rr rid of
        Some alternatives \<Rightarrow> first_candidate alternatives
      | None \<Rightarrow>
          (case rev (sort (matching_patterns rr (lower rid))) of
             [] \<Rightarrow> Inr None
           | (n, pattern, alternatives) # _ \<Rightarrow> first_candidate alternatives))"

text \<open>
  \<open>_match_app_context\<close>: the first key contained in the app context decides; its
  list may be empty, which gives \<open>None\<close>.
\<close>

definition match_app_context :: "rules \<Rightarrow> UIElement \<Rightarrow> str option" where
  "match_app_context ar e =
     (if app_context e = [] then None
      else (case find (\<lambda>(app_name, rs). contains app_name (app_context e)) ar of
              None \<Rightarrow> None
            | Some (app_name, rs) \<Rightarrow> (case rs of [] \<Rightarrow> None | r # _ \<Rightarrow> Some r)))"

text \<open>A loop that returns at the first iteration producing a value.\<close>

fun first_some :: "('a \<Rightarrow> 'b option) \<Rightarrow> 'a list \<Rightarrow> 'b option" where
  "first_some f [] = None"
| "first_some f (x # xs) = (case f x of Some y \<Rightarrow> Some y | None \<Rightarrow> first_some f xs)"

text \<open>
  The inner loop shared by \<open>_match_text_pattern\<close> and \<open>_infer_from_context\<close>: the
  first category one of whose patterns contains the word gives its first pattern.
  (\<open>any\<close> over an empty list is false, so \<open>patterns[0]\<close> exists where it is read.)
\<close>

fun pattern_for_word :: "rules \<Rightarrow> str \<Rightarrow> str option" where
  "pattern_for_word [] word = None"
| "pattern_for_word ((category, patterns) # rest) word =
     (if list_ex (\<lambda>pattern. contains word (lower pattern)) patterns
      then (case patterns of p # _ \<Rightarrow> Some p | [] \<Rightarrow> pattern_for_word rest word)
      else pattern_for_word rest word)"

text \<open>The first pattern, in table order, whose lower-case form occurs in the text.\<close>

definition direct_pattern :: "rules \<Rightarrow> str \<Rightarrow> str option" where
  "direct_pattern tr text_lower =
     find (\<lambda>pattern. contains (lower pattern) text_lower) (concat (map snd tr))"

definition match_text_pattern :: "engine \<Rightarrow> str \<Rightarrow> str option" where
  "match_text_pattern eng txt =
     (if txt = [] then None
      else (case direct_pattern (text_pattern_rules eng) (lower txt) of
              Some pattern \<Rightarrow> Some pattern
            | None \<Rightarrow>
                first_some
                  (\<lambda>word. if map_of (action_rules eng) word \<noteq> None
                           then pattern_for_word (text_pattern_rules eng) word else None)
                  (split_ws (lower txt))))"

text \<open>\<open>_match_class_name\<close>: exact name, then simple name, then the first key contained.\<close>

definition match_class_name :: "rules \<Rightarrow> str \<Rightarrow> error + str option" where
  "match_class_name cr cls =
     (case map_of cr cls of
        Some alternatives \<Rightarrow> first_candidate alternatives
      | None \<Rightarrow>
          (case map_of cr (simple_name cls) of
             Some alternatives \<Rightarrow> first_candidate alternatives
           | None \<Rightarrow>
               (case find (\<lambda>(pattern, alternatives). contains (lower pattern) (lower cls)) cr of
                  Some (pattern, alternatives) \<Rightarrow> first_candidate alternatives
                | None \<Rightarrow> Inr None)))"

definition infer_from_context :: "engine \<Rightarrow> UIElement \<Rightarrow> str option" where
  "infer_from_context eng e =
     (let context = lower (parent_context e @ lit '' '' @ sibling_context e) in
      case direct_pattern (text_pattern_rules eng) context of
        Some pattern \<Rightarrow> Some pattern
      | None \<Rightarrow>
          first_some
            (\<lambda>(word, count). if contains word context
                              then pattern_for_word (text_pattern_rules eng) word else None)
            (action_rules eng))"

text \<open>
  \<open>_get_default_alt_text\<close>. The labels are Korean: button, image, input field, text,
  checkbox, radio button, switch, slider and, last, "UI element".
\<close>

definition get_default_alt_text :: "UIElement \<Rightarrow> str" where
  "get_default_alt_text e =
     (let cn = lower (class_name e) in
      if contains (lit ''button'') cn then [0xBC84, 0xD2BC]
      else if contains (lit ''image'') cn then [0xC774, 0xBBF8, 0xC9C0]
      else if contains (lit ''edittext'') cn then [0xC785, 0xB825, 0x20, 0xD544, 0xB4DC]
      else if contains (lit ''textview'') cn then [0xD14D, 0xC2A4, 0xD2B8]
      else if contains (lit ''checkbox'') cn then [0xCCB4, 0xD06C, 0xBC15, 0xC2A4]
      else if contains (lit ''radio'') cn then [0xB77C, 0xB514, 0xC624, 0x20, 0xBC84, 0xD2BC]
      else if contains (lit ''switch'') cn then [0xC2A4, 0xC704, 0xCE58]
      else if contains (lit ''seekbar'') cn then [0xC2AC, 0xB77C, 0xC774, 0xB354]
      else [0x55, 0x49, 0x20, 0xC694, 0xC18C])"

text \<open>\<open>if alt_text:\<close> holds for a string that is not empty; \<open>None\<close> and \<open>""\<close> fall through.\<close>

definition truthy :: "str option \<Rightarrow> str option" where
  "truthy r = (case r of None \<Rightarrow> None | Some s \<Rightarrow> if s = [] then None else Some s)"

text \<open>\<open>generate_alt_text\<close>: the seven tiers, each returning as soon as it has a label.\<close>

definition generate_alt_text :: "engine \<Rightarrow> UIElement \<Rightarrow> error + str" where
  "generate_alt_text eng e =
     (if content_description e \<noteq> [] \<and> strip (content_description e) \<noteq> []
      then Inr (content_description e)
      else
       case (if resource_id e \<noteq> [] then match_resource_id (resource_rules eng) (resource_id e)
             else Inr None) of
         Inl err \<Rightarrow> Inl err
       | Inr by_id \<Rightarrow>
       (case truthy by_id of Some alt_text \<Rightarrow> Inr alt_text | None \<Rightarrow>
       (case truthy (if app_context e \<noteq> [] then match_app_context (app_specific_rules eng) e
                     else None) of
          Some alt_text \<Rightarrow> Inr alt_text | None \<Rightarrow>
       (case truthy (if text e \<noteq> [] then match_text_pattern eng (text e) else None) of
          Some alt_text \<Rightarrow> Inr alt_text | None \<Rightarrow>
       (case (if class_name e \<noteq> [] then match_class_name (class_rules eng) (class_name e)
              else Inr None) of
          Inl err \<Rightarrow> Inl err
        | Inr by_class \<Rightarrow>
       (case truthy by_class of Some alt_text \<Rightarrow> Inr alt_text | None \<Rightarrow>
       (case truthy (infer_from_context eng e) of
          Some alt_text \<Rightarrow> Inr alt_text
        | None \<Rightarrow> Inr (get_default_alt_text e))))))))"

text \<open>
  \<open>get_alternatives\<close>: \<open>dict.fromkeys\<close> keeps the first occurrence of each string, in
  order; the slice \<open>[:5]\<close> keeps at most five.
\<close>

fun dict_fromkeys :: "'a list \<Rightarrow> 'a list" where
  "dict_fromkeys [] = []"
| "dict_fromkeys (x # xs) = x # dict_fromkeys (filter (\<lambda>y. y \<noteq> x) xs)"

definition get_alternatives :: "engine \<Rightarrow> UIElement \<Rightarrow> str list" where
  "get_alternatives eng e =
     (let alternatives = [];
          alternatives = alternatives @
            (if resource_id e \<noteq> [] then
               (case map_of (resource_rules eng) (resource_id e) of Some l \<Rightarrow> l | None \<Rightarrow> [])
             else []);
          alternatives = alternatives @
            (if class_name e \<noteq> [] then
               (case map_of (class_rules eng) (class_name e) of Some l \<Rightarrow> l | None \<Rightarrow> [])
             else []);
          alternatives = alternatives @
            (if app_context e \<noteq> [] then
               concat (map snd (filter (\<lambda>(app_name, rs). contains app_name (app_context e))
                                  (app_specific_rules eng)))
             else [])
      in take 5 (dict_fromkeys alternatives))"

text \<open>\<open>get_matching_confidence\<close>: the tier name and its score.\<close>

definition get_matching_confidence :: "engine \<Rightarrow> UIElement \<Rightarrow> str \<times> real" where
  "get_matching_confidence eng e =
     (if content_description e \<noteq> [] then (lit ''content_description'', 1.0)
      else if resource_id e \<noteq> [] \<and> map_of (resource_rules eng) (resource_id e) \<noteq> None
      then (lit ''resource_id_exact'', 0.95)
      else if resource_id e \<noteq> [] \<and>
              list_ex (\<lambda>pattern. contains (lower pattern) (lower (resource_id e)))
                (map fst (resource_rules eng))
      then (lit ''resource_id_partial'', 0.8)
      else if app_context e \<noteq> [] \<and>
              list_ex (\<lambda>app_name. contains app_name (app_context e))
                (map fst (app_specific_rules eng))
      then (lit ''app_context'', 0.7)
      else if text e \<noteq> [] \<and> truthy (match_text_pattern eng (text e)) \<noteq> None
      then (lit ''text_pattern'', 0.6)
      else if class_name e \<noteq> [] \<and> map_of (class_rules eng) (class_name e) \<noteq> None
      then (lit ''class_name_exact'', 0.5)
      else if class_name e \<noteq> [] \<and> map_of (class_rules eng) (simple_name (class_name e)) \<noteq> None
      then (lit ''class_name_simple'', 0.4)
      else if truthy (infer_from_context eng e) \<noteq> None
      then (lit ''context_inference'', 0.3)
      else (lit ''default'', 0.1))"

text \<open>
  \<open>load_rules\<close>. The five files are opened and parsed in a fixed order inside one
  \<open>try\<close> block. A file is \<open>None\<close> when \<open>open\<close> or \<open>json.load\<close> raises for it; the
  handler prints the error, and the assignments after the failing one are not run.
\<close>

record rule_files =
  resource_id_rules_json :: "rules option"
  class_name_rules_json :: "rules option"
  text_pattern_rules_json :: "rules option"
  app_specific_rules_json :: "rules option"
  action_rules_json :: "(str \<times> int) list option"

definition load_rules :: "rule_files \<Rightarrow> engine \<Rightarrow> engine" where
  "load_rules fs eng =
     (case resource_id_rules_json fs of
        None \<Rightarrow> eng
      | Some t1 \<Rightarrow>
     (case class_name_rules_json fs of
        None \<Rightarrow> eng\<lparr>resource_rules := t1\<rparr>
      | Some t2 \<Rightarrow>
     (case text_pattern_rules_json fs of
        None \<Rightarrow> eng\<lparr>resource_rules := t1, class_rules := t2\<rparr>
      | Some t3 \<Rightarrow>
     (case app_specific_rules_json fs of
        None \<Rightarrow> eng\<lparr>resource_rules := t1, class_rules := t2, text_pattern_rules := t3\<rparr>
      | Some t4 \<Rightarrow>
     (case action_rules_json fs of
        None \<Rightarrow>
          eng\<lparr>resource_rules := t1, class_rules := t2, text_pattern_rules := t3,
              app_specific_rules := t4\<rparr>
      | Some t5 \<Rightarrow>
          eng\<lparr>resource_rules := t1, class_rules := t2, text_pattern_rules := t3,
              app_specific_rules := t4, action_rules := t5\<rparr>)))))"

text \<open>The constructor: every table starts as the empty dict, then \<open>load_rules\<close> runs.\<close>

definition init_engine :: "rule_files \<Rightarrow> engine" where
  "init_engine fs =
     load_rules fs
       \<lparr>resource_rules = [], class_rules = [], text_pattern_rules = [],
        app_specific_rules = [], action_rules = []\<rparr>"

section \<open>The layout analysis (complete\_accessibility\_system.py)\<close>

text \<open>
  An \<open>ElementTree\<close> element: its tag, its attributes and its children in document
  order. Element objects are compared by identity, so an element is told from its
  siblings by its position among the children of its parent, and the entry of
  \<open>element_parents\<close> for it is the node it hangs under (none for the root).
\<close>

datatype node = Node (tag: str) (attrib: "(str \<times> str) list") (children: "node list")

definition attr_get :: "node \<Rightarrow> str \<Rightarrow> str \<Rightarrow> str" where
  "attr_get n key dflt = (case map_of (attrib n) key of Some v \<Rightarrow> v | None \<Rightarrow> dflt)"

definition ui_classes :: "str list" where
  "ui_classes =
     map lit [''Button'', ''ImageButton'', ''TextView'', ''EditText'', ''ImageView'',
       ''CheckBox'', ''RadioButton'', ''Switch'', ''SeekBar'', ''ToggleButton'',
       ''FloatingActionButton'', ''Toolbar'', ''BottomNavigationView'',
       ''TabLayout'', ''RecyclerView'', ''ListView'', ''Spinner'', ''ProgressBar'']"

definition is_ui_element :: "node \<Rightarrow> bool" where
  "is_ui_element n \<longleftrightarrow> simple_name (tag n) \<in> set ui_classes"

text \<open>\<open>_normalize_resource_id\<close>: the slice \<open>[5:]\<close> is taken for either prefix.\<close>

definition normalize_resource_id :: "str \<Rightarrow> str" where
  "normalize_resource_id rid =
     (if rid = [] then []
      else if prefix (lit ''@+id/'') rid \<or> prefix (lit ''@id/'') rid then drop 5 rid
      else rid)"

definition get_parent_context :: "node option \<Rightarrow> str" where
  "get_parent_context parent =
     (case parent of
        Some p \<Rightarrow>
          (let parent_id = normalize_resource_id (attr_get p (lit ''android:id'') []);
               parent_class = simple_name (tag p)
           in parent_class @ lit '':'' @ parent_id)
      | None \<Rightarrow> [])"

definition sibling_entry :: "node \<Rightarrow> str" where
  "sibling_entry sibling =
     (let sibling_id = normalize_resource_id (attr_get sibling (lit ''android:id'') []);
          sibling_class = simple_name (tag sibling);
          sibling_text = attr_get sibling (lit ''android:text'') []
      in if sibling_text \<noteq> [] then sibling_class @ lit '':'' @ sibling_text
         else if sibling_id \<noteq> [] then sibling_class @ lit '':'' @ sibling_id
         else sibling_class)"

text \<open>The children of the parent other than the one at position \<open>i\<close>, in order.\<close>

definition others :: "nat \<Rightarrow> 'a list \<Rightarrow> 'a list" where
  "others i cs = map snd (filter (\<lambda>(j, c). j \<noteq> i) (enumerate 0 cs))"

definition get_sibling_context :: "node option \<Rightarrow> nat \<Rightarrow> str" where
  "get_sibling_context parent i =
     (case parent of
        None \<Rightarrow> []
      | Some p \<Rightarrow> join (lit '' '') (map sibling_entry (others i (children p))))"

definition extract_app_context :: "node \<Rightarrow> str" where
  "extract_app_context n = lit ''com.example.app.MainActivity''"

text \<open>\<open>_parse_element\<close>, for the element at position \<open>i\<close> under \<open>parent\<close>.\<close>

definition parse_element :: "node option \<Rightarrow> nat \<Rightarrow> node \<Rightarrow> UIElement option" where
  "parse_element parent i n =
     (if \<not> is_ui_element n then None
      else Some
        \<lparr>resource_id = normalize_resource_id (attr_get n (lit ''android:id'') []),
         class_name = tag n,
         text = attr_get n (lit ''android:text'') [],
         content_description = attr_get n (lit ''android:contentDescription'') [],
         bounds = [],
         clickable = (lower (attr_get n (lit ''android:clickable'') (lit ''false'')) = lit ''true''),
         focusable = (lower (attr_get n (lit ''android:focusable'') (lit ''false'')) = lit ''true''),
         enabled = (lower (attr_get n (lit ''android:enabled'') (lit ''true'')) = lit ''true''),
         parent_context = get_parent_context parent,
         sibling_context = get_sibling_context parent i,
         app_context = extract_app_context n\<rparr>)"

text \<open>The loop over \<open>root.iter()\<close>: the element itself, then its subtrees, in order.\<close>

fun ui_elements_of :: "node option \<Rightarrow> nat \<Rightarrow> node \<Rightarrow> UIElement list"
  and ui_elements_below :: "node \<Rightarrow> nat \<Rightarrow> node list \<Rightarrow> UIElement list" where
  "ui_elements_of parent i (Node t a cs) =
     (case parse_element parent i (Node t a cs) of Some u \<Rightarrow> [u] | None \<Rightarrow> [])
     @ ui_elements_below (Node t a cs) 0 cs"
| "ui_elements_below p i [] = []"
| "ui_elements_below p i (c # cs) = ui_elements_of (Some p) i c @ ui_elements_below p (Suc i) cs"

text \<open>
  Where a node sits in the tree \<open>r\<close>: the root has no parent; a child sits under its
  parent at its index among the children.
\<close>

inductive placed :: "node \<Rightarrow> node option \<Rightarrow> nat \<Rightarrow> node \<Rightarrow> bool" for r where
  at_root: "placed r None 0 r"
| at_child: "placed r par i p \<Longrightarrow> j < length (children p) \<Longrightarrow>
             placed r (Some p) j (children p ! j)"

text \<open>The suggestion and result dictionaries.\<close>

record suggestion =
  sg_type :: str
  sg_description :: str
  sg_current :: str
  sg_suggested :: str
  sg_confidence :: real
  sg_priority :: str

record result =
  res_resource_id :: str
  res_class_name :: str
  res_text :: str
  current_content_description :: str
  generated_alt_text :: str
  alternatives :: "str list"
  confidence_type :: str
  confidence_score :: real
  res_clickable :: bool
  res_focusable :: bool
  res_enabled :: bool
  suggestions :: "suggestion list"
  priority :: str

definition none_text :: str where
  "none_text = [0xC5C6, 0xC74C]"

definition generate_suggestions :: "UIElement \<Rightarrow> str \<Rightarrow> real \<Rightarrow> suggestion list" where
  "generate_suggestions e alt_text score =
     (if content_description e = [] then
        [\<lparr>sg_type = lit ''missing_content_description'',
          sg_description =
            [0x63, 0x6F, 0x6E, 0x74, 0x65, 0x6E, 0x74, 0x44, 0x65, 0x73, 0x63, 0x72, 0x69,
             0x70, 0x74, 0x69, 0x6F, 0x6E, 0x20, 0xC18D, 0xC131, 0xC774, 0x20, 0xC5C6,
             0xC2B5, 0xB2C8, 0xB2E4, 0x2E],
          sg_current = none_text, sg_suggested = alt_text, sg_confidence = score,
          sg_priority = (if clickable e then lit ''high'' else lit ''medium'')\<rparr>]
      else if content_description e \<noteq> [] \<and> score > 0.7 then
        [\<lparr>sg_type = lit ''improvement_suggestion'',
          sg_description =
            [0xB354, 0x20, 0xBA85, 0xD655, 0xD55C, 0x20, 0xC811, 0xADFC, 0xC131, 0x20,
             0xD14D, 0xC2A4, 0xD2B8, 0xB85C, 0x20, 0xAC1C, 0xC120, 0xD560, 0x20, 0xC218,
             0x20, 0xC788, 0xC2B5, 0xB2C8, 0xB2E4, 0x2E],
          sg_current = content_description e, sg_suggested = alt_text,
          sg_confidence = score, sg_priority = lit ''medium''\<rparr>]
      else [])
     @
     (if clickable e \<and> content_description e = [] then
        [\<lparr>sg_type = lit ''clickable_without_description'',
          sg_description =
            [0xD074, 0xB9AD, 0x20, 0xAC00, 0xB2A5, 0xD55C, 0x20, 0xC694, 0xC18C, 0xC5D0,
             0x20, 0xC811, 0xADFC, 0xC131, 0x20, 0xC124, 0xBA85, 0xC774, 0x20, 0xD544,
             0xC694, 0xD569, 0xB2C8, 0xB2E4, 0x2E],
          sg_current = none_text, sg_suggested = alt_text, sg_confidence = score,
          sg_priority = lit ''high''\<rparr>]
      else [])"

definition calculate_priority :: "UIElement \<Rightarrow> real \<Rightarrow> str" where
  "calculate_priority e score =
     (if clickable e \<and> score > 0.8 then lit ''high''
      else if clickable e \<or> score > 0.6 then lit ''medium''
      else lit ''low'')"

definition generate_accessibility_result :: "engine \<Rightarrow> UIElement \<Rightarrow> error + result" where
  "generate_accessibility_result eng e =
     (case generate_alt_text eng e of
        Inl err \<Rightarrow> Inl err
      | Inr alt_text \<Rightarrow>
          (let alts = get_alternatives eng e;
               (ctype, cscore) = get_matching_confidence eng e
           in Inr
             \<lparr>res_resource_id = resource_id e, res_class_name = class_name e,
              res_text = text e, current_content_description = content_description e,
              generated_alt_text = alt_text, alternatives = alts,
              confidence_type = ctype, confidence_score = cscore,
              res_clickable = clickable e, res_focusable = focusable e,
              res_enabled = enabled e,
              suggestions = generate_suggestions e alt_text cscore,
              priority = calculate_priority e cscore\<rparr>))"

text \<open>The loop that builds \<open>results\<close>: an exception of the engine ends it.\<close>

fun results_for :: "engine \<Rightarrow> UIElement list \<Rightarrow> error + result list" where
  "results_for eng [] = Inr []"
| "results_for eng (e # es) =
     (case generate_accessibility_result eng e of
        Inl err \<Rightarrow> Inl err
      | Inr r \<Rightarrow> (case results_for eng es of Inl err \<Rightarrow> Inl err | Inr rs \<Rightarrow> Inr (r # rs)))"

text \<open>
  \<open>ET.fromstring\<close> belongs to the Python library. It hands the string to the parser
  encoded as UTF-8: a string that holds a surrogate code point (U+D800..U+DFFF)
  cannot be encoded and the call raises \<open>UnicodeEncodeError\<close>, whatever else the
  string holds. An encodable string is parsed; the parsing itself is a parameter
  here, \<open>expat\<close>, which gives the root of the tree, or \<open>None\<close> when the markup is not
  well-formed and \<open>ParseError\<close> is raised.
\<close>

definition is_surrogate :: "nat \<Rightarrow> bool" where
  "is_surrogate c \<longleftrightarrow> 0xD800 \<le> c \<and> c \<le> 0xDFFF"

definition fromstring :: "(str \<Rightarrow> node option) \<Rightarrow> str \<Rightarrow> error + node" where
  "fromstring expat xml_content =
     (if list_ex is_surrogate xml_content then Inl UnicodeEncodeError
      else (case expat xml_content of None \<Rightarrow> Inl ParseError | Some tree \<Rightarrow> Inr tree))"

text \<open>
  \<open>analyze_xml_layout\<close>. The handler catches \<open>ParseError\<close> and returns the empty
  list; any other exception, of the parser or of the engine, leaves the function.
\<close>

definition analyze_xml_layout ::
    "(str \<Rightarrow> node option) \<Rightarrow> engine \<Rightarrow> str \<Rightarrow> error + result list" where
  "analyze_xml_layout expat eng xml_content =
     (case fromstring expat xml_content of
        Inl ParseError \<Rightarrow> Inr []
      | Inl err \<Rightarrow> Inl err
      | Inr tree \<Rightarrow> results_for eng (ui_elements_of None 0 tree))"

text \<open>\<open>generate_report\<close>.\<close>

record report_entry =
  re_resource_id :: str
  re_type :: str
  re_suggested :: str
  re_confidence :: real

record report =
  total_elements :: nat
  elements_with_content_description :: nat
  elements_without_content_description :: nat
  coverage_percentage :: real
  high_priority :: "report_entry list"
  medium_priority :: "report_entry list"
  low_priority :: "report_entry list"
  high_priority_count :: nat
  medium_priority_count :: nat
  low_priority_count :: nat

definition entries_where :: "(str \<Rightarrow> bool) \<Rightarrow> result list \<Rightarrow> report_entry list" where
  "entries_where P results =
     concat (map (\<lambda>r. map (\<lambda>s. \<lparr>re_resource_id = res_resource_id r, re_type = sg_type s,
                                  re_suggested = sg_suggested s,
                                  re_confidence = sg_confidence s\<rparr>)
                         (filter (\<lambda>s. P (sg_priority s)) (suggestions r)))
                 results)"

definition generate_report :: "result list \<Rightarrow> report" where
  "generate_report results =
     (let total = length results;
          with_cd = length (filter (\<lambda>r. current_content_description r \<noteq> []) results);
          high = entries_where (\<lambda>p. p = lit ''high'') results;
          medium = entries_where (\<lambda>p. p \<noteq> lit ''high'' \<and> p = lit ''medium'') results;
          low = entries_where (\<lambda>p. p \<noteq> lit ''high'' \<and> p \<noteq> lit ''medium'') results
      in \<lparr>total_elements = total,
          elements_with_content_description = with_cd,
          elements_without_content_description = total - with_cd,
          coverage_percentage =
            (if total > 0 then real with_cd / real total * 100 else 0),
          high_priority = high, medium_priority = medium, low_priority = low,
          high_priority_count = length high, medium_priority_count = length medium,
          low_priority_count = length low\<rparr>)"

section \<open>The source lists of the alternatives\<close>

text \<open>
  The three lists the specification names for \<open>get_alternatives\<close>, one after the other:
  the \<open>resource_rules\<close> entry of the element's id, the \<open>class_rules\<close> entry of its class
  name, and the lists of all \<open>app_specific_rules\<close> keys contained in its app context,
  in table order.
\<close>

definition alternatives_sources :: "engine \<Rightarrow> UIElement \<Rightarrow> str list" where
  "alternatives_sources eng e =
     (case map_of (resource_rules eng) (resource_id e) of None \<Rightarrow> [] | Some l \<Rightarrow> l)
     @ (case map_of (class_rules eng) (class_name e) of None \<Rightarrow> [] | Some l \<Rightarrow> l)
     @ concat (map snd (filter (\<lambda>(app_name, rs). contains app_name (app_context e))
                          (app_specific_rules eng)))"

text \<open>
  The same three lists with the guards of the code: a list is left out when the field
  of the element it is looked up with is the empty string.
\<close>

definition guarded_sources :: "engine \<Rightarrow> UIElement \<Rightarrow> str list" where
  "guarded_sources eng e =
     (if resource_id e = [] then []
      else case map_of (resource_rules eng) (resource_id e) of None \<Rightarrow> [] | Some l \<Rightarrow> l)
     @ (if class_name e = [] then []
        else case map_of (class_rules eng) (class_name e) of None \<Rightarrow> [] | Some l \<Rightarrow> l)
     @ (if app_context e = [] then []
        else concat (map snd (filter (\<lambda>(app_name, rs). contains app_name (app_context e))
                                (app_specific_rules eng))))"

section \<open>Inputs used in the examples\<close>

definition no_rules :: engine where
  "no_rules =
     \<lparr>resource_rules = [], class_rules = [], text_pattern_rules = [],
      app_specific_rules = [], action_rules = []\<rparr>"

text \<open>\<open>UIElement("", "")\<close>: every field at its default.\<close>

definition blank_element :: UIElement where
  "blank_element =
     \<lparr>resource_id = [], class_name = [], text = [], content_description = [], bounds = [],
      clickable = False, focusable = False, enabled = True, parent_context = [],
      sibling_context = [], app_context = []\<rparr>"

text \<open>A form: a layout with an id and a text, holding three widgets.\<close>

definition form_layout :: node where
  "form_layout =
     Node (lit ''LinearLayout'')
       [(lit ''android:id'', lit ''@+id/form''), (lit ''android:text'', lit ''Title'')]
       [Node (lit ''TextView'') [(lit ''android:text'', lit ''Name'')] [],
        Node (lit ''EditText'') [(lit ''android:id'', lit ''@+id/name'')] [],
        Node (lit ''ImageView'') [] []]"

section \<open>Facts about the string operations\<close>

lemma lower_empty [simp]: "lower s = [] \<longleftrightarrow> s = []"
  by (simp add: lower_def)

lemma lower_Nil [simp]: "lower [] = []"
  using lower_empty [of "[]"] by simp

lemma strip_nonempty: "strip s \<noteq> [] \<Longrightarrow> s \<noteq> []"
  by (auto simp: strip_def)

lemma strip_empty_iff: "strip s = [] \<longleftrightarrow> list_all isspace s"
proof
  assume "list_all isspace s"
  then have "dropWhile isspace s = []" by (simp add: list_all_iff)
  then show "strip s = []" unfolding strip_def by (simp del: dropWhile_eq_Nil_conv)
next
  assume a: "strip s = []"
  show "list_all isspace s"
  proof (cases "dropWhile isspace s")
    case Nil
    then show ?thesis by (simp add: list_all_iff dropWhile_eq_Nil_conv)
  next
    case (Cons x r)
    then have "\<not> isspace x" using hd_dropWhile [of isspace s] by simp
    moreover from a Cons have "\<forall>y\<in>set (rev r @ [x]). isspace y"
      by (simp add: strip_def dropWhile_eq_Nil_conv)
    ultimately show ?thesis by simp
  qed
qed


text \<open>After \<open>sort(reverse=True)\<close> the first item is a greatest one.\<close>

lemma sort_reverse_head:
  fixes xs :: "'a::linorder list"
  assumes "rev (sort xs) = m # rest"
  shows "m \<in> set xs \<and> (\<forall>x\<in>set xs. x \<le> m)"
proof -
  from assms have eq: "sort xs = rev rest @ [m]"
    by (metis rev.simps(2) rev_rev_ident)
  have "sorted (rev rest @ [m])" using eq sorted_sort [of xs] by simp
  then have "\<forall>x\<in>set (rev rest). x \<le> m" by (simp add: sorted_append)
  moreover have "set xs = set (rev rest @ [m])" using eq set_sort [of "\<lambda>x. x" xs] by simp
  ultimately show ?thesis by auto
qed

section \<open>The description tier\<close>

lemma match_app_context_description [simp]:
  "match_app_context ar (e\<lparr>content_description := d\<rparr>) = match_app_context ar e"
  by (simp add: match_app_context_def)

lemma infer_from_context_description [simp]:
  "infer_from_context eng (e\<lparr>content_description := d\<rparr>) = infer_from_context eng e"
  by (simp add: infer_from_context_def)

lemma get_default_alt_text_description [simp]:
  "get_default_alt_text (e\<lparr>content_description := d\<rparr>) = get_default_alt_text e"
  by (simp add: get_default_alt_text_def)

text \<open>
  C1. An element whose \<open>content_description\<close> is not empty after \<open>strip()\<close> gets that
  very string as its label, whatever the tables hold (no other tier is consulted, so
  no table can change the label or make the call fail), and the confidence is the
  tier \<open>content_description\<close> with score 1.0.
\<close>

theorem explicit_description_is_label:
  assumes "strip (content_description e) \<noteq> []"
  shows "generate_alt_text eng e = Inr (content_description e) \<and>
         get_matching_confidence eng e = (lit ''content_description'', 1.0)"
  using assms strip_nonempty [OF assms]
  by (simp add: generate_alt_text_def get_matching_confidence_def)

theorem explicit_description_is_label_witness:
  "strip (lit '' Go back '') \<noteq> [] \<and>
   generate_alt_text (no_rules\<lparr>resource_rules := [(lit ''backBtn'', [])]\<rparr>)
     (blank_element\<lparr>resource_id := lit ''backBtn'', content_description := lit '' Go back ''\<rparr>)
     = Inr (lit '' Go back '') \<and>
   get_matching_confidence (no_rules\<lparr>resource_rules := [(lit ''backBtn'', [])]\<rparr>)
     (blank_element\<lparr>resource_id := lit ''backBtn'', content_description := lit '' Go back ''\<rparr>)
     = (lit ''content_description'', 1.0)"
proof -
  have h: "strip (content_description
      (blank_element\<lparr>resource_id := lit ''backBtn'', content_description := lit '' Go back ''\<rparr>))
      \<noteq> []"
    by (simp add: strip_def isspace_def lit_def)
  show ?thesis
    using h explicit_description_is_label [OF h,
        of "no_rules\<lparr>resource_rules := [(lit ''backBtn'', [])]\<rparr>"]
    by simp
qed

text \<open>
  C9. A \<open>content_description\<close> that is not empty but holds white space only: the
  confidence is still the tier \<open>content_description\<close> with score 1.0, while the label
  is not taken from the description: it is the label the element would get with no
  description at all, computed by the tiers below.
\<close>

theorem blank_description_scores_one:
  assumes "content_description e \<noteq> []" and "list_all isspace (content_description e)"
  shows "get_matching_confidence eng e = (lit ''content_description'', 1.0) \<and>
         generate_alt_text eng e = generate_alt_text eng (e\<lparr>content_description := []\<rparr>)"
  using assms strip_empty_iff [of "content_description e"]
  by (simp add: generate_alt_text_def get_matching_confidence_def
      cong: sum.case_cong option.case_cong)

theorem blank_description_scores_one_witness:
  "lit ''  '' \<noteq> [] \<and> list_all isspace (lit ''  '') \<and>
   get_matching_confidence no_rules
     (blank_element\<lparr>class_name := lit ''Button'', content_description := lit ''  ''\<rparr>)
     = (lit ''content_description'', 1.0) \<and>
   generate_alt_text no_rules
     (blank_element\<lparr>class_name := lit ''Button'', content_description := lit ''  ''\<rparr>)
     = Inr [0xBC84, 0xD2BC]"
proof -
  let ?e = "blank_element\<lparr>class_name := lit ''Button'', content_description := lit ''  ''\<rparr>"
  have h1: "content_description ?e \<noteq> []" by (simp add: lit_def)
  have h2: "list_all isspace (content_description ?e)" by (simp add: lit_def isspace_def)
  have "generate_alt_text no_rules (?e\<lparr>content_description := []\<rparr>) = Inr [0xBC84, 0xD2BC]"
    by (simp add: generate_alt_text_def no_rules_def blank_element_def match_class_name_def
        simple_name_def split_on_def infer_from_context_def direct_pattern_def truthy_def
        get_default_alt_text_def lower_def lower_cp_def lit_def)
  then show ?thesis
    using h1 h2 blank_description_scores_one [OF h1 h2, of no_rules] by simp
qed

section \<open>Identifier normalisation\<close>

lemma normalize_new_id: "normalize_resource_id (lit ''@+id/'' @ s) = s"
  by (simp add: normalize_resource_id_def lit_def)

lemma normalize_plain_id: "normalize_resource_id (lit ''@id/'' @ s) = drop 1 s"
  by (simp add: normalize_resource_id_def lit_def)

lemma normalize_no_prefix:
  "\<not> prefix (lit ''@+id/'') s \<Longrightarrow> \<not> prefix (lit ''@id/'') s \<Longrightarrow> normalize_resource_id s = s"
  by (simp add: normalize_resource_id_def)

text \<open>
  C2. The five-character prefix \<open>@+id/\<close> is removed exactly and an id without a
  prefix, or an absent id, is returned as it is; but the slice \<open>[5:]\<close> is applied to
  the four-character prefix \<open>@id/\<close> as well, so \<open>@id/backBtn\<close> becomes \<open>ackBtn\<close>, not
  \<open>backBtn\<close>.
\<close>

theorem plain_id_prefix_loses_a_character:
  "normalize_resource_id (lit ''@id/backBtn'') = lit ''ackBtn'' \<and>
   normalize_resource_id (lit ''@id/backBtn'') \<noteq> lit ''backBtn'' \<and>
   normalize_resource_id (lit ''@+id/backBtn'') = lit ''backBtn'' \<and>
   normalize_resource_id (lit ''backBtn'') = lit ''backBtn'' \<and>
   normalize_resource_id [] = []"
  by (simp add: normalize_resource_id_def lit_def)

section \<open>The resource-id tier\<close>





section \<open>Label and confidence are computed apart\<close>

text \<open>
  C4. \<open>generate_alt_text\<close> and \<open>get_matching_confidence\<close> walk the tiers separately
  and can disagree. Here the class name \<open>android.widget.FooBar\<close> is no key of
  \<open>class_rules\<close>, nor is its simple name, but the key \<open>foo\<close> occurs in it: the class
  tier of \<open>generate_alt_text\<close> supplies the label, while \<open>get_matching_confidence\<close>,
  which has no such substring test, reports the tier \<open>default\<close> with score 0.1 (and
  the label is not the default label).
\<close>

theorem class_label_with_default_confidence:
  "match_class_name [(lit ''foo'', [lit ''Foo widget''])] (lit ''android.widget.FooBar'')
     = Inr (Some (lit ''Foo widget'')) \<and>
   generate_alt_text (no_rules\<lparr>class_rules := [(lit ''foo'', [lit ''Foo widget''])]\<rparr>)
     (blank_element\<lparr>class_name := lit ''android.widget.FooBar''\<rparr>) = Inr (lit ''Foo widget'') \<and>
   get_matching_confidence (no_rules\<lparr>class_rules := [(lit ''foo'', [lit ''Foo widget''])]\<rparr>)
     (blank_element\<lparr>class_name := lit ''android.widget.FooBar''\<rparr>) = (lit ''default'', 0.1) \<and>
   get_default_alt_text (blank_element\<lparr>class_name := lit ''android.widget.FooBar''\<rparr>)
     \<noteq> lit ''Foo widget''"
  by (simp add: generate_alt_text_def get_matching_confidence_def no_rules_def
      blank_element_def match_class_name_def first_candidate_def truthy_def simple_name_def
      split_on_def infer_from_context_def direct_pattern_def get_default_alt_text_def
      lower_def lower_cp_def lit_def)

section \<open>Empty candidate lists\<close>

lemma first_candidate_nonempty: "alts \<noteq> [] \<Longrightarrow> \<exists>a. first_candidate alts = Inr (Some a)"
  by (cases alts) (simp_all add: first_candidate_def)

lemma match_resource_id_total:
  assumes "\<forall>(k, alts)\<in>set rr. alts \<noteq> []"
  shows "\<exists>r. match_resource_id rr rid = Inr r"
proof (cases "map_of rr rid")
  case (Some alts)
  then have "(rid, alts) \<in> set rr" by (rule map_of_SomeD)
  with assms have "alts \<noteq> []" by auto
  from first_candidate_nonempty [OF this] Some show ?thesis
    by (auto simp: match_resource_id_def)
next
  case None
  show ?thesis
  proof (cases "rev (sort (matching_patterns rr (lower rid)))")
    case Nil
    with None show ?thesis by (simp add: match_resource_id_def)
  next
    case (Cons m rest)
    obtain n k alts where m: "m = (n, k, alts)" by (cases m) auto
    from sort_reverse_head [OF Cons] have "m \<in> set (matching_patterns rr (lower rid))" by simp
    with m have "(k, alts) \<in> set rr" by (auto simp: matching_patterns_def)
    with assms have "alts \<noteq> []" by auto
    from first_candidate_nonempty [OF this] None Cons m show ?thesis
      by (auto simp: match_resource_id_def)
  qed
qed

lemma match_class_name_total:
  assumes "\<forall>(k, alts)\<in>set cr. alts \<noteq> []"
  shows "\<exists>r. match_class_name cr cls = Inr r"
proof -
  have a: "\<exists>r. first_candidate alts = Inr r" if "(k, alts) \<in> set cr" for k alts
    using that assms first_candidate_nonempty [of alts] by auto
  have f: "(k, alts) \<in> set cr" if "find P cr = Some (k, alts)" for P k alts
    using that by (auto simp: find_Some_iff)
  show ?thesis
    unfolding match_class_name_def
    by (auto split: option.splits dest!: map_of_SomeD f a)
qed

lemma first_candidate_error: "first_candidate alts = Inl err \<Longrightarrow> err = IndexError"
  by (cases alts) (simp_all add: first_candidate_def)

lemma match_resource_id_error: "match_resource_id rr rid = Inl err \<Longrightarrow> err = IndexError"
  by (auto simp: match_resource_id_def split: option.splits list.splits
      dest: first_candidate_error)

text \<open>
  C10, as the code has it. When no list of \<open>resource_rules\<close> and \<open>class_rules\<close> is
  empty, the call returns a label. For an element with an empty
  \<open>content_description\<close> the call fails with \<open>IndexError\<close> in two cases: its
  \<open>resource_id\<close> is not empty and is a key of \<open>resource_rules\<close> with an empty list;
  or no tier before the class tier gives a label (the resource-id tier is skipped
  or returns no non-empty string, and neither the app-context tier nor the
  text-pattern tier returns a non-empty string), its \<open>class_name\<close> is not empty and is
  a key of \<open>class_rules\<close> with an empty list, or is no key while its simple name is
  such a key.
\<close>

theorem empty_candidate_list_raises:
  "(content_description e = [] \<and> resource_id e \<noteq> [] \<and>
    map_of (resource_rules eng) (resource_id e) = Some [] \<longrightarrow>
      generate_alt_text eng e = Inl IndexError) \<and>
   (content_description e = [] \<and>
    (resource_id e = [] \<or>
     (\<forall>a. a \<noteq> [] \<longrightarrow> match_resource_id (resource_rules eng) (resource_id e) \<noteq> Inr (Some a))) \<and>
    truthy (match_app_context (app_specific_rules eng) e) = None \<and>
    truthy (match_text_pattern eng (text e)) = None \<and>
    class_name e \<noteq> [] \<and>
    (map_of (class_rules eng) (class_name e) = Some [] \<or>
     (map_of (class_rules eng) (class_name e) = None \<and>
      map_of (class_rules eng) (simple_name (class_name e)) = Some [])) \<longrightarrow>
      generate_alt_text eng e = Inl IndexError) \<and>
   ((\<forall>(k, alts)\<in>set (resource_rules eng) \<union> set (class_rules eng). alts \<noteq> []) \<longrightarrow>
      (\<exists>label. generate_alt_text eng e = Inr label))"
proof (intro conjI impI)
  assume "content_description e = [] \<and> resource_id e \<noteq> [] \<and>
    map_of (resource_rules eng) (resource_id e) = Some []"
  then show "generate_alt_text eng e = Inl IndexError"
    by (simp add: generate_alt_text_def match_resource_id_def first_candidate_def)
next
  assume a: "content_description e = [] \<and>
    (resource_id e = [] \<or>
     (\<forall>a. a \<noteq> [] \<longrightarrow> match_resource_id (resource_rules eng) (resource_id e) \<noteq> Inr (Some a))) \<and>
    truthy (match_app_context (app_specific_rules eng) e) = None \<and>
    truthy (match_text_pattern eng (text e)) = None \<and>
    class_name e \<noteq> [] \<and>
    (map_of (class_rules eng) (class_name e) = Some [] \<or>
     (map_of (class_rules eng) (class_name e) = None \<and>
      map_of (class_rules eng) (simple_name (class_name e)) = Some []))"
  then have cls: "match_class_name (class_rules eng) (class_name e) = Inl IndexError"
    by (auto simp: match_class_name_def first_candidate_def)
  have none: "truthy None = None" by (simp add: truthy_def)
  show "generate_alt_text eng e = Inl IndexError"
  proof (cases "resource_id e = []")
    case True
    with a cls none show ?thesis by (simp add: generate_alt_text_def)
  next
    case False
    with a have no: "\<forall>a. a \<noteq> [] \<longrightarrow>
        match_resource_id (resource_rules eng) (resource_id e) \<noteq> Inr (Some a)" by blast
    show ?thesis
    proof (cases "match_resource_id (resource_rules eng) (resource_id e)")
      case (Inl err)
      with match_resource_id_error [OF Inl] a False show ?thesis
        by (simp add: generate_alt_text_def)
    next
      case (Inr r)
      with no have "truthy r = None" by (cases r) (auto simp: truthy_def)
      with Inr a cls False none show ?thesis by (simp add: generate_alt_text_def)
    qed
  qed
next
  assume "\<forall>(k, alts)\<in>set (resource_rules eng) \<union> set (class_rules eng). alts \<noteq> []"
  then have r: "\<forall>(k, alts)\<in>set (resource_rules eng). alts \<noteq> []"
    and c: "\<forall>(k, alts)\<in>set (class_rules eng). alts \<noteq> []" by auto
  from match_resource_id_total [OF r] obtain x
    where x: "match_resource_id (resource_rules eng) (resource_id e) = Inr x" by blast
  from match_class_name_total [OF c] obtain y
    where y: "match_class_name (class_rules eng) (class_name e) = Inr y" by blast
  show "\<exists>label. generate_alt_text eng e = Inr label"
    using x y by (simp add: generate_alt_text_def split: option.splits)
qed

theorem empty_candidate_list_raises_witness:
  "generate_alt_text (no_rules\<lparr>resource_rules := [(lit ''backBtn'', [])]\<rparr>)
     (blank_element\<lparr>resource_id := lit ''backBtn''\<rparr>) = Inl IndexError \<and>
   generate_alt_text (no_rules\<lparr>class_rules := [(lit ''Button'', [])]\<rparr>)
     (blank_element\<lparr>class_name := lit ''android.widget.Button''\<rparr>) = Inl IndexError \<and>
   (\<exists>label. generate_alt_text (no_rules\<lparr>class_rules := [(lit ''Button'', [lit ''button''])]\<rparr>)
     (blank_element\<lparr>class_name := lit ''android.widget.Button''\<rparr>) = Inr label)"
proof -
  let ?e1 = "blank_element\<lparr>resource_id := lit ''backBtn''\<rparr>"
  let ?e2 = "blank_element\<lparr>class_name := lit ''android.widget.Button''\<rparr>"
  have a: "generate_alt_text (no_rules\<lparr>resource_rules := [(lit ''backBtn'', [])]\<rparr>) ?e1
           = Inl IndexError"
    using empty_candidate_list_raises
      [of ?e1 "no_rules\<lparr>resource_rules := [(lit ''backBtn'', [])]\<rparr>"]
    by (simp add: blank_element_def lit_def)
  have b: "generate_alt_text (no_rules\<lparr>class_rules := [(lit ''Button'', [])]\<rparr>) ?e2
           = Inl IndexError"
    using empty_candidate_list_raises
      [of ?e2 "no_rules\<lparr>class_rules := [(lit ''Button'', [])]\<rparr>"]
    by (simp add: no_rules_def blank_element_def match_app_context_def
        match_text_pattern_def truthy_def simple_name_def split_on_def lit_def)
  have c: "\<exists>label. generate_alt_text
             (no_rules\<lparr>class_rules := [(lit ''Button'', [lit ''button''])]\<rparr>) ?e2 = Inr label"
    using empty_candidate_list_raises
      [of ?e2 "no_rules\<lparr>class_rules := [(lit ''Button'', [lit ''button''])]\<rparr>"]
    by (simp add: no_rules_def)
  from a b c show ?thesis by blast
qed

text \<open>
  The class name \<open>Button\<close> is a key of \<open>class_rules\<close> with an empty list, but the text
  \<open>Search\<close> matches a pattern: the text-pattern tier returns before the class tier is
  reached, and the call does not fail.
\<close>

theorem text_tier_hides_empty_class_list:
  "content_description (blank_element\<lparr>class_name := lit ''Button'', text := lit ''Search''\<rparr>) = [] \<and>
   map_of [(lit ''Button'', [])] (lit ''Button'') = Some ([] :: str list) \<and>
   generate_alt_text
     (no_rules\<lparr>class_rules := [(lit ''Button'', [])],
               text_pattern_rules := [(lit ''action'', [lit ''search''])]\<rparr>)
     (blank_element\<lparr>class_name := lit ''Button'', text := lit ''Search''\<rparr>)
     = Inr (lit ''search'')"
  by (simp add: generate_alt_text_def no_rules_def blank_element_def match_text_pattern_def
      direct_pattern_def truthy_def lower_def lower_cp_def lit_def)

section \<open>Alternatives\<close>

lemma set_dict_fromkeys [simp]: "set (dict_fromkeys xs) = set xs"
  by (induction xs rule: dict_fromkeys.induct) auto

lemma distinct_dict_fromkeys [simp]: "distinct (dict_fromkeys xs)"
  by (induction xs rule: dict_fromkeys.induct) auto

lemma takeWhile_filter_other:
  assumes "y \<noteq> x"
  shows "set (takeWhile (\<lambda>z. z \<noteq> y) (filter (\<lambda>z. z \<noteq> x) xs))
     = set (takeWhile (\<lambda>z. z \<noteq> y) xs) - {x}"
proof (induct xs)
  case Nil
  show ?case by simp
next
  case (Cons a xs)
  show ?case
  proof (cases "a = x")
    case True
    with assms Cons show ?thesis by simp
  next
    case False
    with assms Cons show ?thesis by (cases "a = y") (simp_all add: insert_Diff_if)
  qed
qed

lemma dict_fromkeys_first_seen:
  "j < length (dict_fromkeys xs) \<Longrightarrow>
   set (take j (dict_fromkeys xs)) = set (takeWhile (\<lambda>y. y \<noteq> dict_fromkeys xs ! j) xs)"
proof (induction xs arbitrary: j rule: dict_fromkeys.induct)
  case 1
  then show ?case by simp
next
  case (2 x xs)
  show ?case
  proof (cases j)
    case 0
    then show ?thesis by simp
  next
    case (Suc i)
    let ?ys = "filter (\<lambda>y. y \<noteq> x) xs"
    from "2.prems" Suc have i: "i < length (dict_fromkeys ?ys)" by simp
    then have "dict_fromkeys ?ys ! i \<in> set (dict_fromkeys ?ys)" by (rule nth_mem)
    then have ne: "dict_fromkeys ?ys ! i \<noteq> x" by simp
    from "2.IH" [OF i] takeWhile_filter_other [OF ne, of xs]
    show ?thesis using Suc ne by auto
  qed
qed

lemma get_alternatives_sources:
  "get_alternatives eng e = take 5 (dict_fromkeys (guarded_sources eng e))"
  by (simp add: get_alternatives_def guarded_sources_def)

text \<open>
  The guards only matter for a table that has the empty string as a key: without
  such keys the lists of the code are the three lists of the specification.
\<close>

lemma no_empty_key: "map_of t [] = None \<Longrightarrow> filter (\<lambda>(k, v). contains k []) t = []"
  by (induction t) (auto split: if_splits)

lemma guarded_sources_without_empty_keys:
  assumes "map_of (resource_rules eng) [] = None"
    and "map_of (class_rules eng) [] = None"
    and "map_of (app_specific_rules eng) [] = None"
  shows "guarded_sources eng e = alternatives_sources eng e"
  using assms no_empty_key [OF assms(3)]
  by (simp add: guarded_sources_def alternatives_sources_def)

text \<open>
  C8, as the code has it. The source lists are the \<open>resource_rules\<close> entry of the
  element's id when the id is not empty, the \<open>class_rules\<close> entry of its class name
  when the class name is not empty, and the lists of all \<open>app_specific_rules\<close> keys
  contained in its app context when the app context is not empty. Over these,
  \<open>get_alternatives\<close> returns at most five strings (exactly five when the lists hold
  five or more different strings, else all of them), pairwise distinct and all taken
  from the lists, in first-seen order: the strings in front of the one at position
  \<open>j\<close> are exactly those that occur in the concatenated lists before its first
  occurrence.
\<close>

theorem alternatives_first_seen:
  "length (get_alternatives eng e) = min 5 (card (set (guarded_sources eng e))) \<and>
   distinct (get_alternatives eng e) \<and>
   set (get_alternatives eng e) \<subseteq> set (guarded_sources eng e) \<and>
   (\<forall>j<length (get_alternatives eng e).
      set (take j (get_alternatives eng e)) =
      set (takeWhile (\<lambda>y. y \<noteq> get_alternatives eng e ! j) (guarded_sources eng e)))"
proof -
  let ?src = "guarded_sources eng e"
  let ?d = "dict_fromkeys ?src"
  have r: "get_alternatives eng e = take 5 ?d" by (rule get_alternatives_sources)
  have "length ?d = card (set ?src)"
    using distinct_card [OF distinct_dict_fromkeys, of ?src] by simp
  then have len: "length (take 5 ?d) = min 5 (card (set ?src))" by simp
  have sub: "set (take 5 ?d) \<subseteq> set ?src" using set_take_subset [of 5 ?d] by simp
  have ord: "set (take j (take 5 ?d)) = set (takeWhile (\<lambda>y. y \<noteq> take 5 ?d ! j) ?src)"
    if "j < length (take 5 ?d)" for j
  proof -
    from that have j: "j < length ?d" and j5: "j < 5" by simp_all
    from j5 have "take j (take 5 ?d) = take j ?d" by (simp add: min_def)
    moreover from j5 have "take 5 ?d ! j = ?d ! j" by simp
    ultimately show ?thesis using dict_fromkeys_first_seen [OF j] by simp
  qed
  show ?thesis unfolding r using len sub ord by simp
qed

theorem alternatives_first_seen_witness:
  "get_alternatives
     (no_rules\<lparr>resource_rules := [(lit ''backBtn'', [lit ''Back'', lit ''Go back'', lit ''Back''])],
               class_rules := [(lit ''ImageButton'', [lit ''Button'', lit ''Back'', lit ''Image''])],
               app_specific_rules := [(lit ''com.example'', [lit ''Home'', lit ''Menu'', lit ''Back'']),
                                      (lit ''org.other'', [lit ''Other''])]\<rparr>)
     (blank_element\<lparr>resource_id := lit ''backBtn'', class_name := lit ''ImageButton'',
                    app_context := lit ''com.example.app.MainActivity''\<rparr>)
   = [lit ''Back'', lit ''Go back'', lit ''Button'', lit ''Image'', lit ''Home''] \<and>
   set (take 2 [lit ''Back'', lit ''Go back'', lit ''Button'', lit ''Image'', lit ''Home''])
   = set (takeWhile (\<lambda>y. y \<noteq> lit ''Button'')
       (guarded_sources
         (no_rules\<lparr>resource_rules := [(lit ''backBtn'', [lit ''Back'', lit ''Go back'', lit ''Back''])],
               class_rules := [(lit ''ImageButton'', [lit ''Button'', lit ''Back'', lit ''Image''])],
               app_specific_rules := [(lit ''com.example'', [lit ''Home'', lit ''Menu'', lit ''Back'']),
                                      (lit ''org.other'', [lit ''Other''])]\<rparr>)
         (blank_element\<lparr>resource_id := lit ''backBtn'', class_name := lit ''ImageButton'',
                    app_context := lit ''com.example.app.MainActivity''\<rparr>)))"
proof -
  let ?eng = "no_rules\<lparr>resource_rules := [(lit ''backBtn'', [lit ''Back'', lit ''Go back'', lit ''Back''])],
               class_rules := [(lit ''ImageButton'', [lit ''Button'', lit ''Back'', lit ''Image''])],
               app_specific_rules := [(lit ''com.example'', [lit ''Home'', lit ''Menu'', lit ''Back'']),
                                      (lit ''org.other'', [lit ''Other''])]\<rparr>"
  let ?e = "blank_element\<lparr>resource_id := lit ''backBtn'', class_name := lit ''ImageButton'',
                    app_context := lit ''com.example.app.MainActivity''\<rparr>"
  have v: "get_alternatives ?eng ?e
           = [lit ''Back'', lit ''Go back'', lit ''Button'', lit ''Image'', lit ''Home'']"
    by (simp add: get_alternatives_def no_rules_def blank_element_def lit_def)
  have "2 < length (get_alternatives ?eng ?e)" by (simp add: v)
  with alternatives_first_seen [of ?eng ?e]
  have "set (take 2 (get_alternatives ?eng ?e)) =
      set (takeWhile (\<lambda>y. y \<noteq> get_alternatives ?eng ?e ! 2) (guarded_sources ?eng ?e))"
    by blast
  with v show ?thesis by simp
qed

text \<open>
  The empty string is a key of \<open>resource_rules\<close> and the element has no id: the
  three lists of the specification are \<open>b\<close>, then \<open>a\<close>, \<open>b\<close>, so that first-seen
  order is \<open>b\<close>, \<open>a\<close>; the code skips the first list and returns \<open>a\<close>, \<open>b\<close>.
\<close>

theorem empty_field_skips_its_source:
  "get_alternatives
     (no_rules\<lparr>resource_rules := [([], [lit ''b''])],
               class_rules := [(lit ''Button'', [lit ''a'', lit ''b''])]\<rparr>)
     (blank_element\<lparr>class_name := lit ''Button''\<rparr>) = [lit ''a'', lit ''b''] \<and>
   alternatives_sources
     (no_rules\<lparr>resource_rules := [([], [lit ''b''])],
               class_rules := [(lit ''Button'', [lit ''a'', lit ''b''])]\<rparr>)
     (blank_element\<lparr>class_name := lit ''Button''\<rparr>) = [lit ''b'', lit ''a'', lit ''b''] \<and>
   dict_fromkeys [lit ''b'', lit ''a'', lit ''b''] = [lit ''b'', lit ''a'']"
  by (simp add: get_alternatives_def alternatives_sources_def no_rules_def blank_element_def
      lit_def)

section \<open>Parent and sibling context\<close>

lemma filter_enumerate_above:
  "n < m \<Longrightarrow> filter (\<lambda>(j, c). j \<noteq> n) (enumerate m cs) = enumerate m cs"
  by (rule filter_True) (auto simp: in_set_enumerate_eq)

lemma others_enumerate:
  "map snd (filter (\<lambda>(j, c). j \<noteq> n + i) (enumerate n cs)) = take i cs @ drop (Suc i) cs"
proof (induction cs arbitrary: n i)
  case Nil
  show ?case by simp
next
  case (Cons c cs)
  show ?case
  proof (cases i)
    case 0
    then show ?thesis by (simp add: filter_enumerate_above)
  next
    case (Suc k)
    with Cons.IH [of "Suc n" k] show ?thesis by simp
  qed
qed

lemma others_take_drop: "others i cs = take i cs @ drop (Suc i) cs"
  using others_enumerate [of 0 i cs] by (simp add: others_def)

text \<open>
  Every record of the traversal is the record of a node of the tree, parsed with the
  parent it sits under and its own position there.
\<close>

lemma ui_elements_placed_aux:
  shows "placed r parent i n \<Longrightarrow> u \<in> set (ui_elements_of parent i n) \<Longrightarrow>
           \<exists>par j m. placed r par j m \<and> parse_element par j m = Some u"
    and "\<exists>par0 i0. placed r par0 i0 p \<Longrightarrow> cs = drop k (children p) \<Longrightarrow>
           u \<in> set (ui_elements_below p k cs) \<Longrightarrow>
           \<exists>par j m. placed r par j m \<and> parse_element par j m = Some u"
proof (induction parent i n and p k cs rule: ui_elements_of_ui_elements_below.induct)
  case (1 parent i t a cs)
  from "1.prems"(2) consider "parse_element parent i (Node t a cs) = Some u"
    | "u \<in> set (ui_elements_below (Node t a cs) 0 cs)"
    by (auto split: option.splits)
  then show ?case
  proof cases
    case 1
    with "1.prems"(1) show ?thesis by blast
  next
    case 2
    have "\<exists>par0 i0. placed r par0 i0 (Node t a cs)" using "1.prems"(1) by blast
    from "1.IH" [OF this _ 2] show ?thesis by simp
  qed
next
  case (2 p k)
  then show ?case by simp
next
  case (3 p k c cs)
  from "3.prems"(2) have k: "k < length (children p)"
    by (metis drop_eq_Nil2 list.distinct(1) not_le_imp_less)
  with "3.prems"(2) have c: "children p ! k = c" and rest: "cs = drop (Suc k) (children p)"
    by (simp_all add: Cons_nth_drop_Suc [symmetric])
  from "3.prems"(1) k c have plc: "placed r (Some p) k c" using placed.at_child by blast
  from "3.prems"(3) consider "u \<in> set (ui_elements_of (Some p) k c)"
    | "u \<in> set (ui_elements_below p (Suc k) cs)" by auto
  then show ?case
  proof cases
    case 1
    from "3.IH"(1) [OF plc 1] show ?thesis .
  next
    case 2
    from "3.IH"(2) [OF "3.prems"(1) rest 2] show ?thesis .
  qed
qed

lemma ui_elements_placed:
  assumes "u \<in> set (ui_elements_of None 0 r)"
  shows "\<exists>par j m. placed r par j m \<and> parse_element par j m = Some u"
  using ui_elements_placed_aux(1) [OF placed.at_root assms] .

text \<open>
  What \<open>_parse_element\<close> stores: the sibling context has one entry for every other
  child of the parent, in document order, each formed by the three-way rule; the
  parent context is the class name of the parent, a colon and its normalised id.
\<close>

lemma context_strings_of_parsed_element:
  assumes "parse_element parent i n = Some u"
  shows "(case parent of
            None \<Rightarrow> parent_context u = [] \<and> sibling_context u = []
          | Some p \<Rightarrow>
              parent_context u =
                simple_name (tag p) @ lit '':'' @
                normalize_resource_id (attr_get p (lit ''android:id'') []) \<and>
              sibling_context u =
                join (lit '' '')
                  (map sibling_entry (take i (children p) @ drop (Suc i) (children p)))) \<and>
         (\<forall>s. sibling_entry s =
            (if attr_get s (lit ''android:text'') [] \<noteq> []
             then simple_name (tag s) @ lit '':'' @ attr_get s (lit ''android:text'') []
             else if normalize_resource_id (attr_get s (lit ''android:id'') []) \<noteq> []
             then simple_name (tag s) @ lit '':'' @
                  normalize_resource_id (attr_get s (lit ''android:id'') [])
             else simple_name (tag s)))"
proof -
  from assms have u: "parent_context u = get_parent_context parent"
      "sibling_context u = get_sibling_context parent i"
    by (auto simp: parse_element_def split: if_splits)
  show ?thesis
    unfolding u
    by (simp add: get_parent_context_def get_sibling_context_def others_take_drop
        sibling_entry_def split: option.splits)
qed

text \<open>The same for every record of a tree, with the node's own parent and position.\<close>

lemma context_strings_of_ui_elements:
  assumes "u \<in> set (ui_elements_of None 0 r)"
  shows "\<exists>par j m. placed r par j m \<and> parse_element par j m = Some u \<and>
           (case par of
              None \<Rightarrow> parent_context u = [] \<and> sibling_context u = []
            | Some p \<Rightarrow>
                parent_context u =
                  simple_name (tag p) @ lit '':'' @
                  normalize_resource_id (attr_get p (lit ''android:id'') []) \<and>
                sibling_context u =
                  join (lit '' '')
                    (map sibling_entry (take j (children p) @ drop (Suc j) (children p))))"
proof -
  from ui_elements_placed [OF assms] obtain par j m
    where pl: "placed r par j m" and pe: "parse_element par j m = Some u" by blast
  from context_strings_of_parsed_element [OF pe] pl pe show ?thesis by blast
qed

text \<open>
  C5. The claim gives the parent the same three-way rule as the siblings, and the
  sibling path of the code follows it; the parent path does not. In the form layout
  the parent has the id \<open>form\<close> and the text \<open>Title\<close>: the records of its three
  children carry the sibling entries by the three-way rule, but the parent context
  \<open>LinearLayout:form\<close> where the claim requires \<open>LinearLayout:Title\<close>. A parent with
  neither text nor id gives \<open>FrameLayout:\<close>, with the colon, where the claim requires
  the bare class name \<open>FrameLayout\<close>.
\<close>

theorem parent_context_ignores_text:
  "map parent_context (ui_elements_of None 0 form_layout) =
     [lit ''LinearLayout:form'', lit ''LinearLayout:form'', lit ''LinearLayout:form''] \<and>
   map sibling_context (ui_elements_of None 0 form_layout) =
     [lit ''EditText:name ImageView'', lit ''TextView:Name ImageView'',
      lit ''TextView:Name EditText:name''] \<and>
   map parent_context
     (ui_elements_of None 0 (Node (lit ''FrameLayout'') [] [Node (lit ''Button'') [] []])) =
     [lit ''FrameLayout:'']"
  by (simp add: form_layout_def parse_element_def is_ui_element_def ui_classes_def
      get_parent_context_def get_sibling_context_def others_def sibling_entry_def
      attr_get_def normalize_resource_id_def simple_name_def split_on_def lit_def)

section \<open>Loading the rule files\<close>

text \<open>
  C6, as the code has it. When one of the five files is missing, the constructor
  still returns an engine; the tables read before the missing file hold their full
  contents, and the table of the missing file and every table that comes after it in
  the order resource id, class name, text pattern, app, action stay empty.
\<close>

theorem load_rules_stops_at_first_missing_file:
  "init_engine \<lparr>resource_id_rules_json = None, class_name_rules_json = Some t2,
      text_pattern_rules_json = Some t3, app_specific_rules_json = Some t4,
      action_rules_json = Some t5\<rparr> = no_rules \<and>
   init_engine \<lparr>resource_id_rules_json = Some t1, class_name_rules_json = None,
      text_pattern_rules_json = Some t3, app_specific_rules_json = Some t4,
      action_rules_json = Some t5\<rparr> = no_rules\<lparr>resource_rules := t1\<rparr> \<and>
   init_engine \<lparr>resource_id_rules_json = Some t1, class_name_rules_json = Some t2,
      text_pattern_rules_json = None, app_specific_rules_json = Some t4,
      action_rules_json = Some t5\<rparr> = no_rules\<lparr>resource_rules := t1, class_rules := t2\<rparr> \<and>
   init_engine \<lparr>resource_id_rules_json = Some t1, class_name_rules_json = Some t2,
      text_pattern_rules_json = Some t3, app_specific_rules_json = None,
      action_rules_json = Some t5\<rparr>
     = no_rules\<lparr>resource_rules := t1, class_rules := t2, text_pattern_rules := t3\<rparr> \<and>
   init_engine \<lparr>resource_id_rules_json = Some t1, class_name_rules_json = Some t2,
      text_pattern_rules_json = Some t3, app_specific_rules_json = Some t4,
      action_rules_json = None\<rparr>
     = no_rules\<lparr>resource_rules := t1, class_rules := t2, text_pattern_rules := t3,
                app_specific_rules := t4\<rparr> \<and>
   init_engine \<lparr>resource_id_rules_json = Some t1, class_name_rules_json = Some t2,
      text_pattern_rules_json = Some t3, app_specific_rules_json = Some t4,
      action_rules_json = Some t5\<rparr>
     = \<lparr>resource_rules = t1, class_rules = t2, text_pattern_rules = t3,
        app_specific_rules = t4, action_rules = t5\<rparr>"
  by (simp add: init_engine_def load_rules_def no_rules_def)

text \<open>
  With \<open>resource_id_rules.json\<close> missing, the table of classes stays empty although
  its file is there; with that file present (and empty) the table of classes is read.
\<close>

theorem missing_first_file_empties_later_tables:
  "class_rules
     (init_engine \<lparr>resource_id_rules_json = None,
        class_name_rules_json = Some [(lit ''Button'', [lit ''button''])],
        text_pattern_rules_json = Some [], app_specific_rules_json = Some [],
        action_rules_json = Some []\<rparr>) = [] \<and>
   class_rules
     (init_engine \<lparr>resource_id_rules_json = Some [],
        class_name_rules_json = Some [(lit ''Button'', [lit ''button''])],
        text_pattern_rules_json = Some [], app_specific_rules_json = Some [],
        action_rules_json = Some []\<rparr>) = [(lit ''Button'', [lit ''button''])]"
  by (simp add: init_engine_def load_rules_def)

section \<open>Malformed markup\<close>

text \<open>
  C7, as the code has it. When \<open>ET.fromstring\<close> raises \<open>ParseError\<close> for the markup,
  \<open>analyze_xml_layout\<close> returns the empty list and raises nothing, and the report
  over the empty list counts no element and has a coverage of exactly 0 (no division
  takes place).
\<close>

theorem malformed_markup_gives_empty_report:
  assumes "fromstring expat xml_content = Inl ParseError"
  shows "analyze_xml_layout expat eng xml_content = Inr [] \<and>
         total_elements (generate_report []) = 0 \<and>
         coverage_percentage (generate_report []) = 0"
  using assms by (simp add: analyze_xml_layout_def generate_report_def entries_where_def)

theorem malformed_markup_gives_empty_report_witness:
  "fromstring (\<lambda>s. if s = lit ''<Button/>'' then Some (Node (lit ''Button'') [] []) else None)
     (lit ''<Button'') = Inl ParseError \<and>
   analyze_xml_layout
     (\<lambda>s. if s = lit ''<Button/>'' then Some (Node (lit ''Button'') [] []) else None)
     no_rules (lit ''<Button'') = Inr [] \<and>
   total_elements (generate_report []) = 0 \<and>
   coverage_percentage (generate_report []) = 0"
proof -
  let ?expat = "\<lambda>s. if s = lit ''<Button/>'' then Some (Node (lit ''Button'') [] []) else None"
  have h: "fromstring ?expat (lit ''<Button'') = Inl ParseError"
    by (simp add: fromstring_def is_surrogate_def lit_def)
  show ?thesis
    using h malformed_markup_gives_empty_report [OF h, of no_rules] by simp
qed

text \<open>
  Markup that holds the lone surrogate U+D800 is malformed, but the exception it
  raises is \<open>UnicodeEncodeError\<close>, which the handler does not catch: it leaves
  \<open>analyze_xml_layout\<close>, even with a parser that accepts no string at all.
\<close>

theorem surrogate_escapes_the_handler:
  "analyze_xml_layout (\<lambda>s. None) no_rules (lit ''<a>'' @ [0xD800] @ lit ''</a>'')
     = Inl UnicodeEncodeError"
  by (simp add: analyze_xml_layout_def fromstring_def is_surrogate_def lit_def)

end
